theory Spec2Isabelle
  imports Main
begin

section \<open>Strings of bytes and the library functions the code calls\<close>

text \<open>
  A Go string is a sequence of bytes; it is modelled by \<open>string\<close>, a list of
  \<open>char\<close>, one \<open>char\<close> per byte. \<open>byte c\<close> is the numeric value of a byte.
\<close>

definition byte :: "char \<Rightarrow> nat" where
  "byte c = of_char c"

definition isASCII :: "char \<Rightarrow> bool" where
  "isASCII c = (byte c < 128)"

text \<open>
  \<open>strings.ToLower\<close> and \<open>unicode.ToTitle\<close> on one ASCII byte: the letters
  \<open>A..Z\<close> (65..90) and \<open>a..z\<close> (97..122) are 32 apart, every other ASCII byte is
  mapped to itself.
\<close>

definition toLowerByte :: "char \<Rightarrow> char" where
  "toLowerByte c = (if 65 \<le> byte c \<and> byte c \<le> 90 then char_of (byte c + 32) else c)"

definition toUpperByte :: "char \<Rightarrow> char" where
  "toUpperByte c = (if 97 \<le> byte c \<and> byte c \<le> 122 then char_of (byte c - 32) else c)"

text \<open>
  \<open>strings.ToLower\<close>, for a string of ASCII bytes (the library's fast path). The
  library maps a string with a byte above 127 rune by rune through the Unicode tables,
  which are not modelled: every statement about \<open>ToLower\<close> below is about ASCII input.
\<close>

definition ToLower :: "string \<Rightarrow> string" where
  "ToLower s = map toLowerByte s"

text \<open>
  \<open>strings.Title\<close>, for a string of ASCII bytes: a byte that follows a separator
  (anything but an ASCII letter, digit or underscore; the string starts after a
  blank) is put in title case, every other byte is kept.
\<close>

definition isSeparator :: "char \<Rightarrow> bool" where
  "isSeparator r =
     (if 48 \<le> byte r \<and> byte r \<le> 57 then False
      else if 97 \<le> byte r \<and> byte r \<le> 122 then False
      else if 65 \<le> byte r \<and> byte r \<le> 90 then False
      else if r = CHR ''_'' then False
      else True)"

fun Title_from :: "char \<Rightarrow> string \<Rightarrow> string" where
  "Title_from prev [] = []"
| "Title_from prev (r # rs) =
     (if isSeparator prev then toUpperByte r else r) # Title_from r rs"

definition Title :: "string \<Rightarrow> string" where
  "Title s = Title_from (CHR '' '') s"

text \<open>
  \<open>strings.Index(s, sep)\<close> for a one-byte separator: the position of its first
  occurrence, \<open>None\<close> for Go's \<open>-1\<close>.
\<close>

fun Index :: "string \<Rightarrow> char \<Rightarrow> nat option" where
  "Index [] sep = None"
| "Index (c # cs) sep =
     (if c = sep then Some 0 else map_option Suc (Index cs sep))"

lemma Index_less: "Index s sep = Some i \<Longrightarrow> i < length s"
  by (induction s arbitrary: i) (auto split: if_splits)

text \<open>
  \<open>strings.Split(s, sep)\<close> for a one-byte separator, as the library's loop runs:
  cut at the first separator, keep the text before it, go on with the text after it;
  the text left when no separator remains is the last element.
\<close>

function Split :: "string \<Rightarrow> char \<Rightarrow> string list" where
  "Split s sep =
     (case Index s sep of
        None \<Rightarrow> [s]
      | Some m \<Rightarrow> take m s # Split (drop (m + 1) s) sep)"
  by pat_completeness auto
termination
  by (relation "measure (\<lambda>(s, sep). length s)") (auto dest: Index_less)

declare Split.simps [simp del]

section \<open>Package dependencies (internal/dep/dep.go)\<close>

text \<open>
  \<open>v1beta1.Dependency\<close> of Crossplane, with the fields \<open>New\<close> sets. A
  \<open>PackageType\<close> is a string there, with the two values below.
\<close>

type_synonym PackageType = string

definition ConfigurationPackageType :: PackageType where
  "ConfigurationPackageType = ''Configuration''"

definition ProviderPackageType :: PackageType where
  "ProviderPackageType = ''Provider''"

record Dependency =
  Package :: string
  Type :: PackageType
  Constraints :: string

datatype panic = NilDereference | IndexOutOfRange

text \<open>
  \<open>New(pkg, t)\<close>. The constant \<open>defaultVer\<close> is declared in another file of the
  package, so it is the first argument here. \<open>ps[0]\<close> panics on an empty slice in
  Go; that branch is kept, and \<open>New_returns\<close> shows it is never taken.
\<close>

definition New :: "string \<Rightarrow> string \<Rightarrow> string \<Rightarrow> panic + Dependency" where
  "New defaultVer pkg t =
     (let version = defaultVer;
          ps = Split pkg (CHR ''@'')
      in case ps of
           [] \<Rightarrow> Inl IndexOutOfRange
         | source # _ \<Rightarrow>
             (let version = (if length ps = 2 then ps ! 1 else version);
                  d = \<lparr>Package = source, Type = ProviderPackageType, Constraints = version\<rparr>;
                  d = (if Title (ToLower t) = ConfigurationPackageType
                       then d\<lparr>Type := ConfigurationPackageType\<rparr> else d)
              in Inr d))"

section \<open>The control plane client for Upbound Cloud (package cloud)\<close>

subsection \<open>Errors\<close>

text \<open>
  A Go \<open>error\<close> value is an \<open>error option\<close>, \<open>None\<close> for \<open>nil\<close>. The errors
  that occur are those made by \<open>errors.New\<close>, the errors of the SDK, which carry an
  HTTP status and a title, and the not-found error of \<open>internal/controlplane\<close>.

  Modelled from the spec: \<open>controlplane.NewNotFound\<close> is not among the sources. The
  spec calls what it returns the typed not-found condition, distinguishable from
  generic failures: it is a constructor of its own around the error it is made from.
\<close>

datatype error =
    ErrorsNew string
  | SdkError nat string
  | NotFound "error option"

definition NewNotFound :: "error option \<Rightarrow> error" where
  "NewNotFound err = NotFound err"

text \<open>
  \<open>sdkerrs.IsNotFound\<close> of the SDK: an SDK error whose status is 404, and nothing
  else; \<open>nil\<close> is not one.
\<close>

fun IsNotFound :: "error option \<Rightarrow> bool" where
  "IsNotFound (Some (SdkError status title)) = (status = 404)"
| "IsNotFound _ = False"

subsection \<open>The data transfer objects\<close>

text \<open>
  A UUID is held in its text form, the one \<open>ID.String()\<close> returns. An instant and a
  duration are numbers of nanoseconds; a duration is a signed 64-bit number, and
  \<open>time.Since\<close> saturates at its bounds.
\<close>

type_synonym UUID = string
type_synonym Time = int
type_synonym Duration = int

definition Since :: "Time \<Rightarrow> Time \<Rightarrow> Duration" where
  "Since now t =
     (let d = now - t
      in if d < - (2 ^ 63) then - (2 ^ 63)
         else if 2 ^ 63 - 1 < d then 2 ^ 63 - 1
         else d)"

text \<open>The status values of the SDK, as the spec gives them.\<close>

type_synonym Status = string

definition StatusProvisioning :: Status where
  "StatusProvisioning = ''provisioning''"

definition StatusUpdating :: Status where
  "StatusUpdating = ''updating''"

definition StatusReady :: Status where
  "StatusReady = ''ready''"

definition StatusDeleting :: Status where
  "StatusDeleting = ''deleting''"

type_synonym ConfigurationStatus = string

definition ConfigurationReady :: ConfigurationStatus where
  "ConfigurationReady = ''ready''"

text \<open>
  The DTOs of the SDK, with the fields the client reads. A Go pointer field is an
  \<open>option\<close>, \<open>None\<close> for \<open>nil\<close>.
\<close>

record ControlPlaneConfiguration =
  cfg_Name :: "string option"
  cfg_Status :: ConfigurationStatus

record ControlPlane =
  cp_ID :: UUID
  cp_Name :: string
  cp_CreatedAt :: "Time option"
  cp_Configuration :: "ControlPlaneConfiguration option"

record ControlPlaneResponse =
  ControlPlane :: ControlPlane
  Status :: Status

record ControlPlaneListResponse =
  ControlPlanes :: "ControlPlaneResponse list"

record ControlPlaneCreateParameters =
  p_Name :: string
  p_Description :: string
  p_ConfigurationID :: "UUID option"

record ConfigurationResponse =
  cr_ID :: UUID

datatype ListOption = WithSize nat

text \<open>\<open>controlplane.Response\<close> and \<open>controlplane.Options\<close>, what the client returns and takes.\<close>

record Response =
  resp_ID :: string
  resp_Name :: string
  Synced :: string
  Ready :: string
  Message :: string
  Cfg :: string
  Updated :: string
  Age :: "Duration option"

record Options =
  Description :: string
  ConfigurationName :: "string option"

record NamespacedName =
  Namespace :: string
  Name :: string

subsection \<open>The wrapped clients\<close>

text \<open>
  The two interfaces the client wraps. A method is a function of the arguments the
  client passes (the context is handed through untouched and left out) to the Go
  pair it returns, a pointer and an error. Every operation below returns the list of
  the calls it made to them, in order, next to its result.
\<close>

record ctpClient =
  ctp_Create :: "string \<Rightarrow> ControlPlaneCreateParameters \<Rightarrow> ControlPlaneResponse option \<times> error option"
  ctp_Delete :: "string \<Rightarrow> string \<Rightarrow> error option"
  ctp_Get :: "string \<Rightarrow> string \<Rightarrow> ControlPlaneResponse option \<times> error option"
  ctp_List :: "string \<Rightarrow> ListOption list \<Rightarrow> ControlPlaneListResponse option \<times> error option"

record cfgGetter =
  cfg_Get :: "string \<Rightarrow> string \<Rightarrow> ConfigurationResponse option \<times> error option"

datatype call =
    CtpCreate string ControlPlaneCreateParameters
  | CtpDelete string string
  | CtpGet string string
  | CtpList string "ListOption list"
  | CfgGet string string

type_synonym URL = string

record Client =
  ctp :: ctpClient
  cfg :: cfgGetter
  account :: string
  token :: string
  proxy :: "URL option"

definition maxItems :: nat where
  "maxItems = 100"

type_synonym Option = "Client \<Rightarrow> Client"

definition WithToken :: "string \<Rightarrow> Option" where
  "WithToken t = (\<lambda>c. c\<lparr>token := t\<rparr>)"

definition WithProxyEndpoint :: "URL option \<Rightarrow> Option" where
  "WithProxyEndpoint p = (\<lambda>c. c\<lparr>proxy := p\<rparr>)"

text \<open>\<open>New\<close> of package cloud (the name \<open>New\<close> is the one of package dep here).\<close>

definition cloud_New :: "ctpClient \<Rightarrow> cfgGetter \<Rightarrow> string \<Rightarrow> Option list \<Rightarrow> Client" where
  "cloud_New ctp0 cfg0 account0 opts =
     fold (\<lambda>opt c. opt c) opts
       \<lparr>ctp = ctp0, cfg = cfg0, account = account0, token = '''', proxy = None\<rparr>"

subsection \<open>Conversion of a backend DTO\<close>

text \<open>
  \<open>strings.ToUpper\<close>: a string of ASCII bytes has its letters \<open>a..z\<close> put in
  upper case. A byte above 127 standing alone is not valid UTF-8, and the library
  writes U+FFFD (the bytes EF BF BD) in its place. Longer strings with a byte above
  127 go through the Unicode tables, which are not modelled; \<open>formatStatus\<close> passes
  one byte only.
\<close>

definition RuneError :: string where
  "RuneError = [CHR 0xEF, CHR 0xBF, CHR 0xBD]"

fun ToUpper :: "string \<Rightarrow> string" where
  "ToUpper [c] = (if isASCII c then [toUpperByte c] else RuneError)"
| "ToUpper s = map toUpperByte s"

definition toBool :: "bool \<Rightarrow> string" where
  "toBool b = (if b then ''True'' else ''False'')"

definition toMessage :: "Status \<Rightarrow> string" where
  "toMessage status =
     (if status = StatusProvisioning then ''Controlplane is being created''
      else if status = StatusUpdating then ''Controlplane is being updated''
      else if status = StatusDeleting then ''Controlplane is being deleted''
      else '''')"

text \<open>
  In the default branch the status is not empty, so the slices \<open>status[:1]\<close> and
  \<open>status[1:]\<close> are in range: they are \<open>take 1\<close> and \<open>drop 1\<close>.
\<close>

definition formatStatus :: "ConfigurationStatus \<Rightarrow> string" where
  "formatStatus status =
     (if status = '''' then ''''
      else if status = ConfigurationReady then ''True''
      else ToUpper (take 1 status) @ drop 1 status)"

text \<open>
  \<open>convert\<close>. \<open>now\<close> is the wall clock at the time of the call, which
  \<open>time.Since\<close> reads. Dereferencing the \<open>Name\<close> of the configuration panics when
  it is \<open>nil\<close>.
\<close>

definition convert :: "Time \<Rightarrow> ControlPlaneResponse \<Rightarrow> panic + Response" where
  "convert now ctp' =
     (case (case cp_Configuration (ControlPlane ctp') of
              None \<Rightarrow> Inr ('''', '''')
            | Some conf \<Rightarrow>
                (case cfg_Name conf of
                   None \<Rightarrow> Inl NilDereference
                 | Some n \<Rightarrow> Inr (n, cfg_Status conf))) of
        Inl p \<Rightarrow> Inl p
      | Inr (cfgName, cfgStatus) \<Rightarrow>
          (let age = (case cp_CreatedAt (ControlPlane ctp') of
                        None \<Rightarrow> None
                      | Some t \<Rightarrow> Some (Since now t))
           in Inr \<lparr>resp_ID = cp_ID (ControlPlane ctp'),
                   resp_Name = cp_Name (ControlPlane ctp'),
                   Synced = toBool True,
                   Ready = toBool (Status ctp' = StatusReady),
                   Message = toMessage (Status ctp'),
                   Cfg = cfgName,
                   Updated = formatStatus cfgStatus,
                   Age = age\<rparr>))"

subsection \<open>The operations of the client\<close>

text \<open>
  An operation returns the calls it made to the wrapped clients and then either a
  panic or the Go pair it returns. A \<open>nil\<close> response next to a \<open>nil\<close> error makes
  the code dereference \<open>nil\<close>.
\<close>

type_synonym 'a returned = "call list \<times> (panic + 'a option \<times> error option)"

definition Get :: "Time \<Rightarrow> Client \<Rightarrow> NamespacedName \<Rightarrow> Response returned" where
  "Get now c ctp' =
     (if Namespace ctp' \<noteq> ''''
      then ([], Inr (None, Some (ErrorsNew ''namespace is not supported for Upbound Cloud control planes'')))
      else
        (let (resp, err) = ctp_Get (ctp c) (account c) (Name ctp');
             calls = [CtpGet (account c) (Name ctp')]
         in if IsNotFound err then (calls, Inr (None, Some (NewNotFound err)))
            else if err \<noteq> None then (calls, Inr (None, err))
            else (case resp of
                    None \<Rightarrow> (calls, Inl NilDereference)
                  | Some r \<Rightarrow>
                      (case convert now r of
                         Inl p \<Rightarrow> (calls, Inl p)
                       | Inr x \<Rightarrow> (calls, Inr (Some x, None))))))"

text \<open>
  The loop of \<open>List\<close>: element \<open>i\<close> is converted at the time \<open>now i\<close> and
  appended to the responses so far.
\<close>

fun convertEach ::
  "(nat \<Rightarrow> Time) \<Rightarrow> nat \<Rightarrow> ControlPlaneResponse list \<Rightarrow> Response list \<Rightarrow> panic + Response list"
where
  "convertEach now i [] resps = Inr resps"
| "convertEach now i (r # rs) resps =
     (case convert (now i) r of
        Inl p \<Rightarrow> Inl p
      | Inr x \<Rightarrow> convertEach now (Suc i) rs (resps @ [x]))"

definition List :: "(nat \<Rightarrow> Time) \<Rightarrow> Client \<Rightarrow> string \<Rightarrow> (Response list) returned" where
  "List now c namespace =
     (if namespace \<noteq> ''''
      then ([], Inr (None, Some (ErrorsNew ''namespace is not supported for Upbound Cloud control planes'')))
      else
        (let (l, err) = ctp_List (ctp c) (account c) [WithSize maxItems];
             calls = [CtpList (account c) [WithSize maxItems]]
         in if err \<noteq> None then (calls, Inr (None, err))
            else (case l of
                    None \<Rightarrow> (calls, Inl NilDereference)
                  | Some lr \<Rightarrow>
                      (case convertEach now 0 (ControlPlanes lr) [] of
                         Inl p \<Rightarrow> (calls, Inl p)
                       | Inr resps \<Rightarrow> (calls, Inr (Some resps, None))))))"

text \<open>The end of \<open>Create\<close>, from the call of the backend on, after the calls made so far.\<close>

definition Create_submit ::
  "Time \<Rightarrow> Client \<Rightarrow> ControlPlaneCreateParameters \<Rightarrow> call list \<Rightarrow> Response returned"
where
  "Create_submit now c params calls0 =
     (let (resp, err) = ctp_Create (ctp c) (account c) params;
          calls = calls0 @ [CtpCreate (account c) params]
      in if err \<noteq> None then (calls, Inr (None, err))
         else (case resp of
                 None \<Rightarrow> (calls, Inl NilDereference)
               | Some r \<Rightarrow>
                   (case convert now r of
                      Inl p \<Rightarrow> (calls, Inl p)
                    | Inr x \<Rightarrow> (calls, Inr (Some x, None)))))"

definition Create :: "Time \<Rightarrow> Client \<Rightarrow> NamespacedName \<Rightarrow> Options \<Rightarrow> Response returned" where
  "Create now c ctp' opts =
     (if Namespace ctp' \<noteq> ''''
      then ([], Inr (None, Some (ErrorsNew ''namespace is not supported for Upbound Cloud control planes'')))
      else
        (let params = \<lparr>p_Name = Name ctp', p_Description = Description opts,
                       p_ConfigurationID = None\<rparr>
         in case ConfigurationName opts of
              None \<Rightarrow> Create_submit now c params []
            | Some n \<Rightarrow>
                (let (conf, err) = cfg_Get (cfg c) (account c) n;
                     calls = [CfgGet (account c) n]
                 in if err \<noteq> None then (calls, Inr (None, err))
                    else (case conf of
                            None \<Rightarrow> (calls, Inl NilDereference)
                          | Some cr \<Rightarrow>
                              Create_submit now c
                                (params\<lparr>p_ConfigurationID := Some (cr_ID cr)\<rparr>) calls))))"

text \<open>\<open>Delete\<close> returns an error only, and dereferences nothing.\<close>

definition Delete :: "Client \<Rightarrow> NamespacedName \<Rightarrow> call list \<times> error option" where
  "Delete c ctp' =
     (if Namespace ctp' \<noteq> ''''
      then ([], Some (ErrorsNew ''namespace is not supported for Upbound Cloud control planes''))
      else
        (let err = ctp_Delete (ctp c) (account c) (Name ctp');
             calls = [CtpDelete (account c) (Name ctp')]
         in if IsNotFound err then (calls, Some (NewNotFound err))
            else (calls, err)))"

text \<open>
  Modelled from the spec: \<open>kube.BuildControlPlaneKubeconfig\<close> is not among the
  sources. The spec describes the access-credential builder as a pure function
  producing a structured credential bundle from (proxy endpoint, path, token, flag),
  which cannot fail: the bundle is the record of these four.
\<close>

record Config =
  conf_proxy :: "URL option"
  conf_path :: string
  conf_token :: string
  conf_flag :: bool

definition BuildControlPlaneKubeconfig :: "URL option \<Rightarrow> string \<Rightarrow> string \<Rightarrow> bool \<Rightarrow> Config" where
  "BuildControlPlaneKubeconfig p path tok flag =
     \<lparr>conf_proxy = p, conf_path = path, conf_token = tok, conf_flag = flag\<rparr>"

text \<open>
  \<open>GetKubeConfig\<close>. \<open>path.Join\<close> of the Go library is its first argument: nothing
  below depends on how it joins.
\<close>

definition GetKubeConfig ::
  "(string list \<Rightarrow> string) \<Rightarrow> Client \<Rightarrow> NamespacedName \<Rightarrow> call list \<times> Config option \<times> error option"
where
  "GetKubeConfig path_Join c ctp' =
     ([], Some (BuildControlPlaneKubeconfig (proxy c) (path_Join [account c, Name ctp'])
                  (token c) False),
      None)"

section \<open>Preconditions, substitute clients and example DTOs\<close>

text \<open>
  The backend DTOs that \<open>convert\<close> can dereference: a configuration reference,
  when there is one, has a name.
\<close>

definition namedConfiguration :: "ControlPlaneResponse \<Rightarrow> bool" where
  "namedConfiguration d =
     (case cp_Configuration (ControlPlane d) of
        None \<Rightarrow> True
      | Some conf \<Rightarrow> cfg_Name conf \<noteq> None)"

text \<open>
  Substitute clients, which answer every call with a fixed result, a client built on
  them by \<open>cloud_New\<close>, and three backend DTOs: the properties are run on these.
\<close>

definition stubCtp ::
  "ControlPlaneResponse option \<times> error option \<Rightarrow> error option \<Rightarrow>
   ControlPlaneListResponse option \<times> error option \<Rightarrow> ctpClient"
where
  "stubCtp one del many =
     \<lparr>ctp_Create = (\<lambda>acc params. one), ctp_Delete = (\<lambda>acc name. del),
      ctp_Get = (\<lambda>acc name. one), ctp_List = (\<lambda>acc opts. many)\<rparr>"

definition stubCfg :: "ConfigurationResponse option \<times> error option \<Rightarrow> cfgGetter" where
  "stubCfg found = \<lparr>cfg_Get = (\<lambda>acc name. found)\<rparr>"

definition stubClient :: "ctpClient \<Rightarrow> cfgGetter \<Rightarrow> Client" where
  "stubClient b g =
     cloud_New b g ''acme'' [WithToken ''tok'', WithProxyEndpoint (Some ''https://proxy'')]"

definition cpPending :: ControlPlaneResponse where
  "cpPending =
     \<lparr>ControlPlane =
        \<lparr>cp_ID = ''id-1'', cp_Name = ''cp1'', cp_CreatedAt = Some 1000,
         cp_Configuration = Some \<lparr>cfg_Name = Some ''cfg1'', cfg_Status = ''pending''\<rparr>\<rparr>,
      Status = ''provisioning''\<rparr>"

definition cpPlain :: ControlPlaneResponse where
  "cpPlain =
     \<lparr>ControlPlane =
        \<lparr>cp_ID = ''id-2'', cp_Name = ''cp2'', cp_CreatedAt = None,
         cp_Configuration = None\<rparr>,
      Status = ''ready''\<rparr>"

definition cpNameless :: ControlPlaneResponse where
  "cpNameless =
     \<lparr>ControlPlane =
        \<lparr>cp_ID = ''id-3'', cp_Name = ''cp3'', cp_CreatedAt = None,
         cp_Configuration = Some \<lparr>cfg_Name = None, cfg_Status = ''ready''\<rparr>\<rparr>,
      Status = ''ready''\<rparr>"

section \<open>Properties of the library functions\<close>

subsection \<open>Bytes and letters\<close>

lemma byte_char_of: "n < 256 \<Longrightarrow> byte (char_of n) = n"
  by (simp add: byte_def)

lemma byte_eq_iff: "byte c = byte d \<longleftrightarrow> c = d"
  by (simp add: byte_def)


lemma toUpperByte_byte:
  "byte (toUpperByte c) = (if 97 \<le> byte c \<and> byte c \<le> 122 then byte c - 32 else byte c)"
  by (auto simp add: toUpperByte_def intro!: byte_char_of)


subsection \<open>Title case of a lower-cased word\<close>





subsection \<open>Splitting at a byte\<close>

lemma Index_None_iff: "Index s sep = None \<longleftrightarrow> sep \<notin> set s"
  by (induction s) auto

lemma Index_Some_split:
  "Index s sep = Some m \<Longrightarrow>
     take m s = takeWhile (\<lambda>c. c \<noteq> sep) s \<and>
     drop (Suc m) s = tl (dropWhile (\<lambda>c. c \<noteq> sep) s)"
  by (induction s arbitrary: m) (auto split: if_splits)

lemma Split_no_sep: "sep \<notin> set s \<Longrightarrow> Split s sep = [s]"
  by (subst Split.simps) (simp add: Index_None_iff [THEN iffD2])

lemma Split_sep:
  "sep \<in> set s \<Longrightarrow>
     Split s sep = takeWhile (\<lambda>c. c \<noteq> sep) s # Split (tl (dropWhile (\<lambda>c. c \<noteq> sep) s)) sep"
  by (subst Split.simps) (auto simp: Index_None_iff dest: Index_Some_split split: option.splits)

lemma count_list_zero: "count_list s x = 0 \<longleftrightarrow> x \<notin> set s"
  by (induction s) auto

lemma count_list_after:
  "sep \<in> set s \<Longrightarrow>
     count_list s sep = Suc (count_list (tl (dropWhile (\<lambda>c. c \<noteq> sep) s)) sep)"
  by (induction s) auto

text \<open>The first element is the text before the first separator, in every case.\<close>

lemma Split_Cons: "\<exists>rest. Split s sep = takeWhile (\<lambda>c. c \<noteq> sep) s # rest"
proof (cases "sep \<in> set s")
  case True
  then show ?thesis by (simp add: Split_sep)
next
  case False
  then have "takeWhile (\<lambda>c. c \<noteq> sep) s = s"
    by (induction s) auto
  with False show ?thesis by (metis Split_no_sep)
qed

lemma Split_one_sep:
  assumes "count_list s sep = 1"
  shows "Split s sep = [takeWhile (\<lambda>c. c \<noteq> sep) s, tl (dropWhile (\<lambda>c. c \<noteq> sep) s)]"
proof -
  from assms have mem: "sep \<in> set s"
    by (metis count_list_zero zero_neq_one)
  with assms have "count_list (tl (dropWhile (\<lambda>c. c \<noteq> sep) s)) sep = 0"
    using count_list_after [OF mem] by simp
  then have "sep \<notin> set (tl (dropWhile (\<lambda>c. c \<noteq> sep) s))"
    by (simp add: count_list_zero)
  then show ?thesis
    using mem by (simp add: Split_sep Split_no_sep)
qed

text \<open>There is one element more than there are separators.\<close>

lemma length_Split: "length (Split s sep) = Suc (count_list s sep)"
proof (induction "length s" arbitrary: s rule: less_induct)
  case less
  show ?case
  proof (cases "sep \<in> set s")
    case False
    then show ?thesis
      by (simp add: Split_no_sep count_list_zero [THEN iffD2])
  next
    case True
    let ?r = "tl (dropWhile (\<lambda>c. c \<noteq> sep) s)"
    from True have "dropWhile (\<lambda>c. c \<noteq> sep) s \<noteq> []"
      by simp
    then have "length ?r < length (dropWhile (\<lambda>c. c \<noteq> sep) s)"
      by (cases "dropWhile (\<lambda>c. c \<noteq> sep) s") auto
    also have "\<dots> \<le> length s"
      by (rule length_dropWhile_le)
    finally have "length (Split ?r sep) = Suc (count_list ?r sep)"
      by (rule less)
    with True show ?thesis
      by (simp add: Split_sep count_list_after)
  qed
qed

subsection \<open>Evaluating the case maps on given bytes\<close>


lemma toUpperByte_eq_iff:
  "toUpperByte c = d \<longleftrightarrow>
     (if 97 \<le> byte c \<and> byte c \<le> 122 then byte c - 32 else byte c) = byte d"
  by (metis toUpperByte_byte byte_eq_iff)

section \<open>Properties of package dep\<close>

text \<open>
  What \<open>New\<close> returns, in one equation: the package is the text before the first
  \<open>@\<close>, and the text after it is the constraint exactly when there is one \<open>@\<close>.
\<close>

lemma New_eq:
  "New dv pkg t =
     Inr \<lparr>Package = takeWhile (\<lambda>c. c \<noteq> CHR ''@'') pkg,
          Type = (if Title (ToLower t) = ConfigurationPackageType
                  then ConfigurationPackageType else ProviderPackageType),
          Constraints = (if count_list pkg (CHR ''@'') = 1
                         then tl (dropWhile (\<lambda>c. c \<noteq> CHR ''@'') pkg) else dv)\<rparr>"
proof -
  obtain rest where ps: "Split pkg (CHR ''@'') = takeWhile (\<lambda>c. c \<noteq> CHR ''@'') pkg # rest"
    using Split_Cons by blast
  have len: "length (Split pkg (CHR ''@'')) = 2 \<longleftrightarrow> count_list pkg (CHR ''@'') = 1"
    by (simp add: length_Split)
  show ?thesis
  proof (cases "count_list pkg (CHR ''@'') = 1")
    case True
    then show ?thesis
      by (simp add: New_def Split_one_sep)
  next
    case False
    with len have "length (Split pkg (CHR ''@'')) \<noteq> 2"
      by simp
    with False ps show ?thesis
      by (simp add: New_def Let_def)
  qed
qed

lemma New_returns: "\<exists>d. New dv pkg t = Inr d"
  by (simp add: New_eq)

lemma takeWhile_no_sep: "sep \<notin> set s \<Longrightarrow> takeWhile (\<lambda>c. c \<noteq> sep) s = s"
  by (induction s) auto




text \<open>
  C10. When the input holds no \<open>@\<close>, or two and more, \<open>New\<close> returns a dependency
  whose constraints are the default and whose package is the text before the first
  \<open>@\<close>, the whole input when there is none. So the text split off is the constraint
  only for an input with exactly one \<open>@\<close>.
\<close>

theorem New_default_constraints:
  assumes "count_list pkg (CHR ''@'') \<noteq> 1"
  shows "\<exists>d. New dv pkg t = Inr d \<and> Constraints d = dv \<and>
           Package d = takeWhile (\<lambda>c. c \<noteq> CHR ''@'') pkg \<and>
           (CHR ''@'' \<notin> set pkg \<longrightarrow> Package d = pkg)"
  using assms by (simp add: New_eq takeWhile_no_sep)

text \<open>C10 at \<open>a@b@c\<close>, with two \<open>@\<close>, and at \<open>acme/db\<close>, with none.\<close>

theorem New_default_constraints_witness:
  "count_list ''a@b@c'' (CHR ''@'') = 2 \<and>
   (\<exists>d. New ''latest'' ''a@b@c'' ''provider'' = Inr d \<and> Constraints d = ''latest'' \<and>
         Package d = ''a'') \<and>
   count_list ''acme/db'' (CHR ''@'') = 0 \<and>
   (\<exists>d. New ''latest'' ''acme/db'' ''provider'' = Inr d \<and> Constraints d = ''latest'' \<and>
         Package d = ''acme/db'')"
  using New_default_constraints [of "''a@b@c''" "''latest''" "''provider''"]
    New_default_constraints [of "''acme/db''" "''latest''" "''provider''"]
  by simp

section \<open>Properties of the control plane client\<close>

subsection \<open>The substitute clients\<close>

lemma stubClient_simps:
  "ctp (stubClient b g) = b" "cfg (stubClient b g) = g" "account (stubClient b g) = ''acme''"
  "token (stubClient b g) = ''tok''" "proxy (stubClient b g) = Some ''https://proxy''"
  by (simp_all add: stubClient_def cloud_New_def WithToken_def WithProxyEndpoint_def)

lemma stubCtp_simps:
  "ctp_Create (stubCtp one del many) a p = one" "ctp_Delete (stubCtp one del many) a n = del"
  "ctp_Get (stubCtp one del many) a n = one" "ctp_List (stubCtp one del many) a os = many"
  by (simp_all add: stubCtp_def)


subsection \<open>The three ways through convert\<close>

lemma convert_without_configuration:
  "cp_Configuration (ControlPlane d) = None \<Longrightarrow>
     convert now d =
       Inr \<lparr>resp_ID = cp_ID (ControlPlane d), resp_Name = cp_Name (ControlPlane d),
            Synced = toBool True, Ready = toBool (Status d = StatusReady),
            Message = toMessage (Status d), Cfg = '''', Updated = formatStatus '''',
            Age = map_option (Since now) (cp_CreatedAt (ControlPlane d))\<rparr>"
  by (simp add: convert_def split: option.splits)

lemma convert_with_configuration:
  "cp_Configuration (ControlPlane d) = Some conf \<Longrightarrow> cfg_Name conf = Some n \<Longrightarrow>
     convert now d =
       Inr \<lparr>resp_ID = cp_ID (ControlPlane d), resp_Name = cp_Name (ControlPlane d),
            Synced = toBool True, Ready = toBool (Status d = StatusReady),
            Message = toMessage (Status d), Cfg = n, Updated = formatStatus (cfg_Status conf),
            Age = map_option (Since now) (cp_CreatedAt (ControlPlane d))\<rparr>"
  by (simp add: convert_def split: option.splits)

lemma convert_nameless:
  "cp_Configuration (ControlPlane d) = Some conf \<Longrightarrow> cfg_Name conf = None \<Longrightarrow>
     convert now d = Inl NilDereference"
  by (simp add: convert_def)

lemma convert_total: "namedConfiguration d \<Longrightarrow> \<exists>r. convert now d = Inr r"
  by (auto simp add: namedConfiguration_def convert_without_configuration
      convert_with_configuration split: option.splits)

subsection \<open>Status, readiness and message\<close>

lemma status_values:
  "StatusReady \<noteq> StatusProvisioning" "StatusReady \<noteq> StatusUpdating"
  "StatusReady \<noteq> StatusDeleting"
  by (simp_all add: StatusReady_def StatusProvisioning_def StatusUpdating_def StatusDeleting_def)

lemma toMessage_cases:
  "toMessage StatusProvisioning = ''Controlplane is being created''"
  "toMessage StatusUpdating = ''Controlplane is being updated''"
  "toMessage StatusDeleting = ''Controlplane is being deleted''"
  "s \<noteq> StatusProvisioning \<Longrightarrow> s \<noteq> StatusUpdating \<Longrightarrow> s \<noteq> StatusDeleting \<Longrightarrow> toMessage s = ''''"
  by (simp_all add: toMessage_def StatusProvisioning_def StatusUpdating_def StatusDeleting_def)

text \<open>
  C5. For every backend DTO that \<open>convert\<close> can dereference, the conversion returns
  a response whose \<open>Synced\<close> is \<open>True\<close>, whose \<open>Ready\<close> is \<open>True\<close> if the
  backend status is the ready status and \<open>False\<close> otherwise, and whose \<open>Message\<close>
  is the text for provisioning, updating or deleting, and empty for every other
  status, the ready status among them.
\<close>

theorem convert_status_fields:
  assumes "namedConfiguration d"
  shows "\<exists>r. convert now d = Inr r \<and>
           Synced r = ''True'' \<and>
           Ready r = (if Status d = StatusReady then ''True'' else ''False'') \<and>
           (Status d = StatusProvisioning \<longrightarrow> Message r = ''Controlplane is being created'') \<and>
           (Status d = StatusUpdating \<longrightarrow> Message r = ''Controlplane is being updated'') \<and>
           (Status d = StatusDeleting \<longrightarrow> Message r = ''Controlplane is being deleted'') \<and>
           (Status d = StatusReady \<longrightarrow> Message r = '''') \<and>
           (Status d \<noteq> StatusProvisioning \<and> Status d \<noteq> StatusUpdating \<and>
            Status d \<noteq> StatusDeleting \<longrightarrow> Message r = '''')"
proof (cases "cp_Configuration (ControlPlane d)")
  case None
  show ?thesis
    by (simp add: convert_without_configuration [OF None] toBool_def toMessage_cases
        status_values)
next
  case (Some conf)
  with assms obtain n where "cfg_Name conf = Some n"
    by (auto simp add: namedConfiguration_def)
  from convert_with_configuration [OF Some this] show ?thesis
    by (simp add: toBool_def toMessage_cases status_values)
qed

text \<open>C5 on a control plane that is provisioning and on one that is ready.\<close>

theorem convert_status_fields_witness:
  "(\<exists>r. convert 5000 cpPending = Inr r \<and> Synced r = ''True'' \<and> Ready r = ''False'' \<and>
        Message r = ''Controlplane is being created'') \<and>
   (\<exists>r. convert 5000 cpPlain = Inr r \<and> Synced r = ''True'' \<and> Ready r = ''True'' \<and>
        Message r = '''')"
  using convert_status_fields [of cpPending 5000] convert_status_fields [of cpPlain 5000]
  by (auto simp add: namedConfiguration_def cpPending_def cpPlain_def StatusReady_def
      StatusProvisioning_def)

subsection \<open>Configuration name and status\<close>

lemma formatStatus_ascii:
  "isASCII c \<Longrightarrow> c # rest \<noteq> ConfigurationReady \<Longrightarrow>
     formatStatus (c # rest) = toUpperByte c # rest"
  by (simp add: formatStatus_def)

lemma formatStatus_fixed:
  "formatStatus '''' = ''''" "formatStatus ConfigurationReady = ''True''"
  by (simp_all add: formatStatus_def ConfigurationReady_def)

text \<open>
  C6, as amended. For every backend DTO that \<open>convert\<close> can dereference: without a
  configuration reference, \<open>Cfg\<close> and \<open>Updated\<close> of the response are empty; with
  one, \<open>Cfg\<close> is its name, and \<open>Updated\<close> is empty for the empty status, \<open>True\<close>
  for the ready status, and for any other status that starts with an ASCII byte, the
  status with that byte in upper case and the rest unchanged.
\<close>

theorem convert_configuration_fields:
  assumes "namedConfiguration d"
  shows "\<exists>r. convert now d = Inr r \<and>
           (cp_Configuration (ControlPlane d) = None \<longrightarrow> Cfg r = '''' \<and> Updated r = '''') \<and>
           (\<forall>conf. cp_Configuration (ControlPlane d) = Some conf \<longrightarrow>
              cfg_Name conf = Some (Cfg r) \<and>
              (cfg_Status conf = '''' \<longrightarrow> Updated r = '''') \<and>
              (cfg_Status conf = ConfigurationReady \<longrightarrow> Updated r = ''True'') \<and>
              (\<forall>c rest. cfg_Status conf = c # rest \<and> cfg_Status conf \<noteq> ConfigurationReady \<and>
                 isASCII c \<longrightarrow> Updated r = toUpperByte c # rest))"
proof (cases "cp_Configuration (ControlPlane d)")
  case None
  show ?thesis
    by (simp add: convert_without_configuration [OF None] None formatStatus_fixed)
next
  case (Some conf)
  with assms obtain n where "cfg_Name conf = Some n"
    by (auto simp add: namedConfiguration_def)
  from convert_with_configuration [OF Some this] this show ?thesis
    by (auto simp add: Some formatStatus_fixed formatStatus_ascii)
qed

text \<open>
  C6, the amended statement on a configuration whose status is \<open>pending\<close> and
  on a control plane without a configuration.
\<close>

theorem convert_configuration_fields_witness:
  "(\<exists>r. convert 5000 cpPending = Inr r \<and> Cfg r = ''cfg1'' \<and> Updated r = ''Pending'') \<and>
   (\<exists>r. convert 5000 cpPlain = Inr r \<and> Cfg r = '''' \<and> Updated r = '''')"
  using convert_configuration_fields [of cpPending 5000]
    convert_configuration_fields [of cpPlain 5000]
  by (auto simp add: namedConfiguration_def cpPending_def cpPlain_def ConfigurationReady_def
      isASCII_def toUpperByte_eq_iff byte_def)

text \<open>
  C6 as it is written fails on a status that starts with a byte above 127. The status
  here is the two bytes C3 A9, the UTF-8 form of one accented letter: \<open>status[:1]\<close>
  is its first byte alone, \<open>strings.ToUpper\<close> writes the three bytes of U+FFFD for
  it, and \<open>Updated\<close> is those three bytes and A9. What follows its first byte is not
  what follows the first byte of the status.
\<close>

theorem formatStatus_first_byte_counterexample:
  "convert 5000
     \<lparr>ControlPlane =
        \<lparr>cp_ID = ''id-4'', cp_Name = ''cp4'', cp_CreatedAt = None,
         cp_Configuration =
           Some \<lparr>cfg_Name = Some ''cfg4'', cfg_Status = [CHR 0xC3, CHR 0xA9]\<rparr>\<rparr>,
      Status = ''ready''\<rparr> =
   Inr \<lparr>resp_ID = ''id-4'', resp_Name = ''cp4'', Synced = ''True'', Ready = ''True'',
        Message = '''', Cfg = ''cfg4'',
        Updated = [CHR 0xEF, CHR 0xBF, CHR 0xBD, CHR 0xA9], Age = None\<rparr> \<and>
   [CHR 0xC3, CHR 0xA9] \<noteq> ConfigurationReady \<and>
   tl [CHR 0xEF, CHR 0xBF, CHR 0xBD, CHR 0xA9] \<noteq> tl [CHR 0xC3, CHR 0xA9]"
  by (simp add: convert_def formatStatus_def ConfigurationReady_def isASCII_def byte_def
      RuneError_def toBool_def toMessage_def StatusReady_def StatusProvisioning_def
      StatusUpdating_def StatusDeleting_def)

subsection \<open>When convert panics\<close>

text \<open>
  C9. \<open>convert\<close> dereferences the name of the configuration reference without a
  check: it panics exactly on a DTO whose configuration reference is present and
  has no name, and returns a response exactly on the others, those that satisfy
  \<open>namedConfiguration\<close>.
\<close>

theorem convert_panics_iff:
  "(convert now d = Inl NilDereference \<longleftrightarrow>
      (\<exists>conf. cp_Configuration (ControlPlane d) = Some conf \<and> cfg_Name conf = None)) \<and>
   ((\<exists>r. convert now d = Inr r) \<longleftrightarrow> namedConfiguration d) \<and>
   (namedConfiguration d \<longleftrightarrow>
      \<not> (\<exists>conf. cp_Configuration (ControlPlane d) = Some conf \<and> cfg_Name conf = None))"
proof (cases "cp_Configuration (ControlPlane d)")
  case None
  then show ?thesis
    by (simp add: namedConfiguration_def convert_without_configuration)
next
  case (Some conf)
  show ?thesis
  proof (cases "cfg_Name conf")
    case None
    with Some show ?thesis
      by (simp add: namedConfiguration_def convert_nameless)
  next
    case (Some n)
    with \<open>cp_Configuration (ControlPlane d) = Some conf\<close> show ?thesis
      by (simp add: namedConfiguration_def convert_with_configuration)
  qed
qed

text \<open>C9 on a DTO whose configuration has no name, and on one whose configuration has.\<close>

theorem convert_panics_iff_witness:
  "convert 5000 cpNameless = Inl NilDereference \<and> (\<exists>r. convert 5000 cpPending = Inr r)"
  using convert_panics_iff [of 5000 cpNameless] convert_panics_iff [of 5000 cpPending]
  by (simp add: namedConfiguration_def cpNameless_def cpPending_def)

subsection \<open>The example DTOs, converted\<close>

lemma convert_cpPending:
  "convert 5000 cpPending =
     Inr \<lparr>resp_ID = ''id-1'', resp_Name = ''cp1'', Synced = ''True'', Ready = ''False'',
          Message = ''Controlplane is being created'', Cfg = ''cfg1'', Updated = ''Pending'',
          Age = Some 4000\<rparr>"
  by (simp add: cpPending_def convert_def toBool_def toMessage_def formatStatus_def
      ConfigurationReady_def StatusReady_def StatusProvisioning_def isASCII_def byte_def
      toUpperByte_eq_iff Since_def)

lemma convert_cpPlain:
  "convert t cpPlain =
     Inr \<lparr>resp_ID = ''id-2'', resp_Name = ''cp2'', Synced = ''True'', Ready = ''True'',
          Message = '''', Cfg = '''', Updated = '''', Age = None\<rparr>"
  by (simp add: cpPlain_def convert_def toBool_def toMessage_def formatStatus_def
      StatusReady_def StatusProvisioning_def StatusUpdating_def StatusDeleting_def)

subsection \<open>Keys with a namespace\<close>

text \<open>
  C1. For every key with a namespace that is not empty, \<open>Get\<close>, \<open>List\<close>,
  \<open>Create\<close> and \<open>Delete\<close> return the error \<open>namespace is not supported for
  Upbound Cloud control planes\<close>, whatever the wrapped clients would answer, and
  the list of the calls made to the wrapped clients is empty.
\<close>

theorem namespace_rejected:
  assumes "Namespace k \<noteq> ''''"
  shows "Get now c k =
           ([], Inr (None, Some (ErrorsNew ''namespace is not supported for Upbound Cloud control planes''))) \<and>
         List nows c (Namespace k) =
           ([], Inr (None, Some (ErrorsNew ''namespace is not supported for Upbound Cloud control planes''))) \<and>
         Create now c k opts =
           ([], Inr (None, Some (ErrorsNew ''namespace is not supported for Upbound Cloud control planes''))) \<and>
         Delete c k =
           ([], Some (ErrorsNew ''namespace is not supported for Upbound Cloud control planes''))"
  using assms by (simp add: Get_def List_def Create_def Delete_def)

text \<open>C1 on the key \<open>default/cp2\<close>, with a backend that would answer.\<close>

theorem namespace_rejected_witness:
  "Get 5000 (stubClient (stubCtp (Some cpPlain, None) None (None, None)) (stubCfg (None, None)))
     \<lparr>Namespace = ''default'', Name = ''cp2''\<rparr> =
     ([], Inr (None, Some (ErrorsNew ''namespace is not supported for Upbound Cloud control planes''))) \<and>
   List (\<lambda>i. 5000)
     (stubClient (stubCtp (Some cpPlain, None) None (None, None)) (stubCfg (None, None)))
     ''default'' =
     ([], Inr (None, Some (ErrorsNew ''namespace is not supported for Upbound Cloud control planes''))) \<and>
   Create 5000
     (stubClient (stubCtp (Some cpPlain, None) None (None, None)) (stubCfg (None, None)))
     \<lparr>Namespace = ''default'', Name = ''cp2''\<rparr>
     \<lparr>Description = ''demo'', ConfigurationName = Some ''cfg1''\<rparr> =
     ([], Inr (None, Some (ErrorsNew ''namespace is not supported for Upbound Cloud control planes''))) \<and>
   Delete (stubClient (stubCtp (Some cpPlain, None) None (None, None)) (stubCfg (None, None)))
     \<lparr>Namespace = ''default'', Name = ''cp2''\<rparr> =
     ([], Some (ErrorsNew ''namespace is not supported for Upbound Cloud control planes''))"
  using namespace_rejected
    [of "\<lparr>Namespace = ''default'', Name = ''cp2''\<rparr>" 5000
      "stubClient (stubCtp (Some cpPlain, None) None (None, None)) (stubCfg (None, None))"
      "\<lambda>i. 5000" "\<lparr>Description = ''demo'', ConfigurationName = Some ''cfg1''\<rparr>"]
  by simp

subsection \<open>Get and Delete\<close>

text \<open>
  C3. For every key without a namespace, \<open>Get\<close> and \<open>Delete\<close> call the backend
  once. When the backend reports a not-found error, they return the typed not-found
  condition made from it, which is neither an \<open>errors.New\<close> error nor an SDK error;
  when it reports another error, they return that error as it is. When the backend
  succeeds, \<open>Get\<close> returns the converted DTO and no error (for a DTO that
  \<open>convert\<close> can dereference), and \<open>Delete\<close> returns no error.
\<close>

theorem Get_Delete_results:
  assumes "Namespace k = ''''"
  shows
    "(\<forall>resp err. ctp_Get (ctp c) (account c) (Name k) = (resp, err) \<and> IsNotFound err \<longrightarrow>
        Get now c k = ([CtpGet (account c) (Name k)], Inr (None, Some (NewNotFound err))) \<and>
        (\<forall>m. NewNotFound err \<noteq> ErrorsNew m) \<and> (\<forall>s t. NewNotFound err \<noteq> SdkError s t)) \<and>
     (\<forall>resp e. ctp_Get (ctp c) (account c) (Name k) = (resp, Some e) \<and> \<not> IsNotFound (Some e) \<longrightarrow>
        Get now c k = ([CtpGet (account c) (Name k)], Inr (None, Some e))) \<and>
     (\<forall>r. ctp_Get (ctp c) (account c) (Name k) = (Some r, None) \<and> namedConfiguration r \<longrightarrow>
        (\<exists>x. convert now r = Inr x \<and>
           Get now c k = ([CtpGet (account c) (Name k)], Inr (Some x, None)))) \<and>
     (IsNotFound (ctp_Delete (ctp c) (account c) (Name k)) \<longrightarrow>
        Delete c k =
          ([CtpDelete (account c) (Name k)],
           Some (NewNotFound (ctp_Delete (ctp c) (account c) (Name k))))) \<and>
     (\<not> IsNotFound (ctp_Delete (ctp c) (account c) (Name k)) \<longrightarrow>
        Delete c k = ([CtpDelete (account c) (Name k)], ctp_Delete (ctp c) (account c) (Name k)))"
proof -
  have notfound: "\<And>resp err. ctp_Get (ctp c) (account c) (Name k) = (resp, err) \<Longrightarrow> IsNotFound err \<Longrightarrow>
      Get now c k = ([CtpGet (account c) (Name k)], Inr (None, Some (NewNotFound err)))"
    using assms by (simp add: Get_def)
  have other: "\<And>resp e. ctp_Get (ctp c) (account c) (Name k) = (resp, Some e) \<Longrightarrow>
      \<not> IsNotFound (Some e) \<Longrightarrow>
      Get now c k = ([CtpGet (account c) (Name k)], Inr (None, Some e))"
    using assms by (simp add: Get_def)
  have ok: "\<And>r. ctp_Get (ctp c) (account c) (Name k) = (Some r, None) \<Longrightarrow> namedConfiguration r \<Longrightarrow>
      \<exists>x. convert now r = Inr x \<and>
        Get now c k = ([CtpGet (account c) (Name k)], Inr (Some x, None))"
  proof -
    fix r
    assume g: "ctp_Get (ctp c) (account c) (Name k) = (Some r, None)" and "namedConfiguration r"
    then obtain x where "convert now r = Inr x"
      using convert_total by blast
    with g assms show "\<exists>x. convert now r = Inr x \<and>
        Get now c k = ([CtpGet (account c) (Name k)], Inr (Some x, None))"
      by (simp add: Get_def)
  qed
  have del: "Delete c k =
      ([CtpDelete (account c) (Name k)],
       if IsNotFound (ctp_Delete (ctp c) (account c) (Name k))
       then Some (NewNotFound (ctp_Delete (ctp c) (account c) (Name k)))
       else ctp_Delete (ctp c) (account c) (Name k))"
    using assms by (simp add: Delete_def Let_def)
  show ?thesis
    using notfound other ok by (simp add: del NewNotFound_def)
qed

text \<open>
  C3 on three backends: one that answers 404, one that answers 500, one that
  succeeds.
\<close>

theorem Get_Delete_results_witness:
  "Get 5000
     (stubClient
        (stubCtp (None, Some (SdkError 404 ''not found'')) (Some (SdkError 404 ''not found''))
           (None, None))
        (stubCfg (None, None)))
     \<lparr>Namespace = '''', Name = ''cp2''\<rparr> =
     ([CtpGet ''acme'' ''cp2''],
      Inr (None, Some (NotFound (Some (SdkError 404 ''not found''))))) \<and>
   Delete
     (stubClient
        (stubCtp (None, Some (SdkError 404 ''not found'')) (Some (SdkError 404 ''not found''))
           (None, None))
        (stubCfg (None, None)))
     \<lparr>Namespace = '''', Name = ''cp2''\<rparr> =
     ([CtpDelete ''acme'' ''cp2''], Some (NotFound (Some (SdkError 404 ''not found'')))) \<and>
   Get 5000
     (stubClient
        (stubCtp (None, Some (SdkError 500 ''internal'')) (Some (SdkError 500 ''internal''))
           (None, None))
        (stubCfg (None, None)))
     \<lparr>Namespace = '''', Name = ''cp2''\<rparr> =
     ([CtpGet ''acme'' ''cp2''], Inr (None, Some (SdkError 500 ''internal''))) \<and>
   Delete
     (stubClient
        (stubCtp (None, Some (SdkError 500 ''internal'')) (Some (SdkError 500 ''internal''))
           (None, None))
        (stubCfg (None, None)))
     \<lparr>Namespace = '''', Name = ''cp2''\<rparr> =
     ([CtpDelete ''acme'' ''cp2''], Some (SdkError 500 ''internal'')) \<and>
   Get 5000
     (stubClient (stubCtp (Some cpPlain, None) None (None, None)) (stubCfg (None, None)))
     \<lparr>Namespace = '''', Name = ''cp2''\<rparr> =
     ([CtpGet ''acme'' ''cp2''],
      Inr (Some \<lparr>resp_ID = ''id-2'', resp_Name = ''cp2'', Synced = ''True'', Ready = ''True'',
                 Message = '''', Cfg = '''', Updated = '''', Age = None\<rparr>, None)) \<and>
   Delete
     (stubClient (stubCtp (Some cpPlain, None) None (None, None)) (stubCfg (None, None)))
     \<lparr>Namespace = '''', Name = ''cp2''\<rparr> =
     ([CtpDelete ''acme'' ''cp2''], None)"
proof -
  have "namedConfiguration cpPlain"
    by (simp add: namedConfiguration_def cpPlain_def)
  with
    Get_Delete_results
      [of "\<lparr>Namespace = '''', Name = ''cp2''\<rparr>"
        "stubClient
           (stubCtp (None, Some (SdkError 404 ''not found'')) (Some (SdkError 404 ''not found''))
              (None, None))
           (stubCfg (None, None))" 5000]
    Get_Delete_results
      [of "\<lparr>Namespace = '''', Name = ''cp2''\<rparr>"
        "stubClient
           (stubCtp (None, Some (SdkError 500 ''internal'')) (Some (SdkError 500 ''internal''))
              (None, None))
           (stubCfg (None, None))" 5000]
    Get_Delete_results
      [of "\<lparr>Namespace = '''', Name = ''cp2''\<rparr>"
        "stubClient (stubCtp (Some cpPlain, None) None (None, None)) (stubCfg (None, None))"
        5000]
  show ?thesis
    by (simp add: stubClient_simps stubCtp_simps NewNotFound_def convert_cpPlain)
qed

subsection \<open>Create\<close>




subsection \<open>GetKubeConfig\<close>

text \<open>
  C7. For every key, with a namespace or without, \<open>GetKubeConfig\<close> calls neither
  wrapped client and returns a credential structure and no error: the structure
  built from the proxy endpoint, the joined path of account and name, and the token
  of the client. Two calls that agree on these three return the same.
\<close>

theorem GetKubeConfig_total:
  "fst (GetKubeConfig path_Join c k) = [] \<and>
   snd (GetKubeConfig path_Join c k) =
     (Some (BuildControlPlaneKubeconfig (proxy c) (path_Join [account c, Name k]) (token c) False),
      None) \<and>
   (proxy c = proxy c' \<and> path_Join [account c, Name k] = path_Join [account c', Name k'] \<and>
    token c = token c' \<longrightarrow>
      GetKubeConfig path_Join c k = GetKubeConfig path_Join c' k')"
  by (simp add: GetKubeConfig_def)

text \<open>
  C7 on a key with a namespace and one without, on two clients with different
  backends.
\<close>

theorem GetKubeConfig_total_witness:
  "GetKubeConfig (\<lambda>elems. concat (map (\<lambda>e. CHR ''/'' # e) elems))
     (stubClient (stubCtp (None, None) None (None, None)) (stubCfg (None, None)))
     \<lparr>Namespace = ''default'', Name = ''cp2''\<rparr> =
   GetKubeConfig (\<lambda>elems. concat (map (\<lambda>e. CHR ''/'' # e) elems))
     (stubClient (stubCtp (Some cpPlain, None) None (None, None))
        (stubCfg (None, Some (SdkError 500 ''lookup failed''))))
     \<lparr>Namespace = '''', Name = ''cp2''\<rparr> \<and>
   GetKubeConfig (\<lambda>elems. concat (map (\<lambda>e. CHR ''/'' # e) elems))
     (stubClient (stubCtp (None, None) None (None, None)) (stubCfg (None, None)))
     \<lparr>Namespace = ''default'', Name = ''cp2''\<rparr> =
   ([], Some \<lparr>conf_proxy = Some ''https://proxy'', conf_path = ''/acme/cp2'',
              conf_token = ''tok'', conf_flag = False\<rparr>, None)"
  using GetKubeConfig_total
    [of "\<lambda>elems. concat (map (\<lambda>e. CHR ''/'' # e) elems)"
      "stubClient (stubCtp (None, None) None (None, None)) (stubCfg (None, None))"
      "\<lparr>Namespace = ''default'', Name = ''cp2''\<rparr>"
      "stubClient (stubCtp (Some cpPlain, None) None (None, None))
         (stubCfg (None, Some (SdkError 500 ''lookup failed'')))"
      "\<lparr>Namespace = '''', Name = ''cp2''\<rparr>"]
  by (cases "GetKubeConfig (\<lambda>elems. concat (map (\<lambda>e. CHR ''/'' # e) elems))
      (stubClient (stubCtp (None, None) None (None, None)) (stubCfg (None, None)))
      \<lparr>Namespace = ''default'', Name = ''cp2''\<rparr>")
    (simp add: stubClient_simps BuildControlPlaneKubeconfig_def)

subsection \<open>List\<close>

text \<open>The loop converts every element, in order, when every element can be dereferenced.\<close>

lemma convertEach_named:
  "\<forall>d\<in>set ds. namedConfiguration d \<Longrightarrow>
     \<exists>xs. convertEach now i ds acc = Inr (acc @ xs) \<and> length xs = length ds \<and>
       (\<forall>j<length ds. convert (now (i + j)) (ds ! j) = Inr (xs ! j))"
proof (induction ds arbitrary: i acc)
  case Nil
  then show ?case by simp
next
  case (Cons d ds)
  then obtain x where x: "convert (now i) d = Inr x"
    using convert_total by fastforce
  from Cons obtain xs where xs: "convertEach now (Suc i) ds (acc @ [x]) = Inr ((acc @ [x]) @ xs)"
      "length xs = length ds"
      "\<forall>j<length ds. convert (now (Suc i + j)) (ds ! j) = Inr (xs ! j)"
    by (metis list.set_intros(2))
  have "\<forall>j<length (d # ds). convert (now (i + j)) ((d # ds) ! j) = Inr ((x # xs) ! j)"
  proof (intro allI impI)
    fix j
    assume "j < length (d # ds)"
    then show "convert (now (i + j)) ((d # ds) ! j) = Inr ((x # xs) ! j)"
      using x xs(3) by (cases j) simp_all
  qed
  with x xs(1,2) show ?case
    by (intro exI [of _ "x # xs"]) simp
qed

lemma List_calls: "fst (List now c '''') = [CtpList (account c) [WithSize maxItems]]"
  by (simp add: List_def Let_def split: prod.splits option.splits sum.splits)

text \<open>
  C8. With the empty namespace, \<open>List\<close> makes one call, the list call with the
  page size 100. When the backend succeeds with elements that \<open>convert\<close> can
  dereference, the result has no error and as many responses as the backend gave
  elements, the response at each position being the conversion of the element at
  that position. When the backend succeeds with no element, the result is the empty
  sequence, not \<open>nil\<close>, and no error.
\<close>

theorem List_converts_each:
  "fst (List now c '''') = [CtpList (account c) [WithSize 100]] \<and>
   (\<forall>l. ctp_List (ctp c) (account c) [WithSize 100] = (Some l, None) \<and>
        (\<forall>d\<in>set (ControlPlanes l). namedConfiguration d) \<longrightarrow>
        (\<exists>rs. snd (List now c '''') = Inr (Some rs, None) \<and>
           length rs = length (ControlPlanes l) \<and>
           (\<forall>j<length (ControlPlanes l).
              convert (now j) (ControlPlanes l ! j) = Inr (rs ! j)))) \<and>
   (\<forall>l. ctp_List (ctp c) (account c) [WithSize 100] = (Some l, None) \<and>
        ControlPlanes l = [] \<longrightarrow> snd (List now c '''') = Inr (Some [], None))"
proof (intro conjI allI impI)
  show "fst (List now c '''') = [CtpList (account c) [WithSize 100]]"
    using List_calls by (simp add: maxItems_def)
next
  fix l
  assume a: "ctp_List (ctp c) (account c) [WithSize 100] = (Some l, None) \<and>
        (\<forall>d\<in>set (ControlPlanes l). namedConfiguration d)"
  then obtain xs where xs: "convertEach now 0 (ControlPlanes l) [] = Inr ([] @ xs)"
      "length xs = length (ControlPlanes l)"
      "\<forall>j<length (ControlPlanes l). convert (now (0 + j)) (ControlPlanes l ! j) = Inr (xs ! j)"
    using convertEach_named by blast
  with a show "\<exists>rs. snd (List now c '''') = Inr (Some rs, None) \<and>
           length rs = length (ControlPlanes l) \<and>
           (\<forall>j<length (ControlPlanes l).
              convert (now j) (ControlPlanes l ! j) = Inr (rs ! j))"
    by (intro exI [of _ xs]) (simp add: List_def maxItems_def)
next
  fix l
  assume "ctp_List (ctp c) (account c) [WithSize 100] = (Some l, None) \<and> ControlPlanes l = []"
  then show "snd (List now c '''') = Inr (Some [], None)"
    by (simp add: List_def maxItems_def)
qed

text \<open>C8 on a backend that lists two control planes, and on one that lists none.\<close>

theorem List_converts_each_witness:
  "fst (List (\<lambda>i. 5000 + int i)
          (stubClient
             (stubCtp (None, None) None (Some \<lparr>ControlPlanes = [cpPending, cpPlain]\<rparr>, None))
             (stubCfg (None, None))) '''') = [CtpList ''acme'' [WithSize 100]] \<and>
   snd (List (\<lambda>i. 5000 + int i)
          (stubClient
             (stubCtp (None, None) None (Some \<lparr>ControlPlanes = [cpPending, cpPlain]\<rparr>, None))
             (stubCfg (None, None))) '''') =
     Inr (Some [\<lparr>resp_ID = ''id-1'', resp_Name = ''cp1'', Synced = ''True'', Ready = ''False'',
                 Message = ''Controlplane is being created'', Cfg = ''cfg1'',
                 Updated = ''Pending'', Age = Some 4000\<rparr>,
                \<lparr>resp_ID = ''id-2'', resp_Name = ''cp2'', Synced = ''True'', Ready = ''True'',
                 Message = '''', Cfg = '''', Updated = '''', Age = None\<rparr>], None) \<and>
   snd (List (\<lambda>i. 5000 + int i)
          (stubClient (stubCtp (None, None) None (Some \<lparr>ControlPlanes = []\<rparr>, None))
             (stubCfg (None, None))) '''') = Inr (Some [], None)"
proof -
  let ?c = "stubClient
      (stubCtp (None, None) None (Some \<lparr>ControlPlanes = [cpPending, cpPlain]\<rparr>, None))
      (stubCfg (None, None))"
  let ?e = "stubClient (stubCtp (None, None) None (Some \<lparr>ControlPlanes = []\<rparr>, None))
      (stubCfg (None, None))"
  let ?now = "\<lambda>i. 5000 + int i"
  have named: "namedConfiguration cpPending" "namedConfiguration cpPlain"
    by (simp_all add: namedConfiguration_def cpPending_def cpPlain_def)
  from List_converts_each [of ?now ?c] named
  obtain rs where rs: "snd (List ?now ?c '''') = Inr (Some rs, None)" "length rs = 2"
      "\<forall>j<2. convert (?now j) ([cpPending, cpPlain] ! j) = Inr (rs ! j)"
    by (auto simp add: stubClient_simps stubCtp_simps)
  from rs(3) have "convert 5000 cpPending = Inr (rs ! 0)" "convert 5001 cpPlain = Inr (rs ! 1)"
    by (auto dest: spec [of _ 0] spec [of _ 1])
  then have "rs ! 0 = \<lparr>resp_ID = ''id-1'', resp_Name = ''cp1'', Synced = ''True'', Ready = ''False'',
                 Message = ''Controlplane is being created'', Cfg = ''cfg1'',
                 Updated = ''Pending'', Age = Some 4000\<rparr>"
     "rs ! 1 = \<lparr>resp_ID = ''id-2'', resp_Name = ''cp2'', Synced = ''True'', Ready = ''True'',
                 Message = '''', Cfg = '''', Updated = '''', Age = None\<rparr>"
    by (simp_all add: convert_cpPending convert_cpPlain)
  with rs(2) have "rs = [\<lparr>resp_ID = ''id-1'', resp_Name = ''cp1'', Synced = ''True'', Ready = ''False'',
                 Message = ''Controlplane is being created'', Cfg = ''cfg1'',
                 Updated = ''Pending'', Age = Some 4000\<rparr>,
                \<lparr>resp_ID = ''id-2'', resp_Name = ''cp2'', Synced = ''True'', Ready = ''True'',
                 Message = '''', Cfg = '''', Updated = '''', Age = None\<rparr>]"
    by (cases rs; cases "tl rs") auto
  with rs(1) List_converts_each [of ?now ?c] List_converts_each [of ?now ?e] show ?thesis
    by (simp add: stubClient_simps stubCtp_simps)
qed

end
